theory Spec2Isabelle
  imports Complex_Main
begin

section \<open>JavaScript values\<close>

text \<open>
  Numbers are IEEE doubles in JavaScript. The code under study only compares a number with
  \<open>0\<close> (\<open>===\<close>) and tests it with \<open>isNaN\<close>, so a number is modelled as not-a-number, an
  infinity, or an exact rational; \<open>+0\<close> and \<open>-0\<close>, which neither test tells apart, are both
  \<open>Finite 0\<close>.
\<close>

datatype jsnum = NaN | PosInfinity | NegInfinity | Finite rat

datatype jsval =
    JUndefined
  | JNull
  | JBool bool
  | JNum jsnum
  | JStr string
  | JArr "jsval list"
  | JObj "(string \<times> jsval) list"

datatype error = SyntaxError | TypeError | Thrown jsval

text \<open>
  Reading a property \<open>v.k\<close>. On \<open>undefined\<close> and \<open>null\<close> it raises a TypeError; on an object
  it yields the property or \<open>undefined\<close>. The file reads only the names \<open>value\<close>, \<open>status\<close>,
  \<open>message\<close> and \<open>userRet\<close>, none of which is a built-in property of a boolean, number,
  string or array, so those yield \<open>undefined\<close>.
\<close>

fun get_prop :: "jsval \<Rightarrow> string \<Rightarrow> error + jsval" where
  "get_prop JUndefined k = Inl TypeError"
| "get_prop JNull k = Inl TypeError"
| "get_prop (JObj ps) k = Inr (case map_of ps k of None \<Rightarrow> JUndefined | Some v \<Rightarrow> v)"
| "get_prop v k = Inr JUndefined"

text \<open>A function value is represented by its source text, which is what \<open>toString\<close> returns.\<close>

datatype jsfunction = Function (toString: string)

section \<open>The adapter object\<close>

text \<open>
  A message published on the event bus as \<open>driver:message\<close>. A property that the object
  literal does not have is \<open>None\<close>.
\<close>

record 'h message =
  key :: string
  msg_value :: "jsval option"
  errorMessage :: "jsval option"
  uuid :: 'h
  hash :: 'h

record payload =
  script :: string
  arguments :: "jsval list"

text \<open>A call made on the remote client.\<close>

datatype request = Execute payload | ExecuteAsync payload | AsyncScript jsnum

text \<open>A deferred of the promise library: pending until \<open>resolve\<close> is called.\<close>

datatype promise = Pending | Resolved

text \<open>
  A local function handed to \<open>thenLocal\<close>: it receives the completion callback and may call
  it, keep it for later, or throw. Only what it does to the deferred is modelled.
\<close>

type_synonym localfn = "(promise \<Rightarrow> promise) \<Rightarrow> promise \<Rightarrow> error + promise"

text \<open>
  The entries of the action queue are bound functions; each constructor is one
  \<open>f.bind(receiver, args...)\<close> of the source, with the bound arguments.
\<close>

datatype 'h action =
    ClientExecute payload
  | ClientExecuteAsync payload
  | ClientAsyncScript jsnum
  | SetExecuteCb string "jsval list" 'h
  | SetExecuteAsyncCb string "jsval list" 'h
  | SetAsyncScriptTimeoutCb jsnum 'h
  | WaitForCb string "jsval list" jsnum 'h
  | SetThenLocalCb localfn 'h

text \<open>
  The receiver \<open>this\<close>: the action queue, the event bus (the \<open>driver:message\<close> events
  emitted so far, oldest first) and the remote client (the calls made on it so far).
\<close>

record 'h native =
  actionQueue :: "'h action list"
  events :: "'h message list"
  webdriverClient :: "request list"

definition emit :: "'h message \<Rightarrow> 'h native \<Rightarrow> 'h native" where
  "emit m d = d\<lparr>events := events d @ [m]\<rparr>"

definition push :: "'h action \<Rightarrow> 'h native \<Rightarrow> 'h native" where
  "push a d = d\<lparr>actionQueue := actionQueue d @ [a]\<rparr>"

definition call_client :: "request \<Rightarrow> 'h native \<Rightarrow> 'h native" where
  "call_client r d = d\<lparr>webdriverClient := webdriverClient d @ [r]\<rparr>"

section \<open>The public methods\<close>

text \<open>Each returns \<open>this\<close>, that is the receiver after the pushes.\<close>

definition execute :: "jsfunction \<Rightarrow> jsval list \<Rightarrow> 'h \<Rightarrow> 'h native \<Rightarrow> 'h native" where
  "execute scr args h d =
     push (SetExecuteCb (toString scr) args h)
       (push (ClientExecute \<lparr>script = toString scr, arguments = args\<rparr>) d)"

definition executeAsync :: "jsfunction \<Rightarrow> jsval list \<Rightarrow> 'h \<Rightarrow> 'h native \<Rightarrow> 'h native" where
  "executeAsync scr args h d =
     push (SetExecuteAsyncCb (toString scr) args h)
       (push (ClientExecuteAsync \<lparr>script = toString scr, arguments = args\<rparr>) d)"

definition asyncScriptTimeout :: "jsnum \<Rightarrow> 'h \<Rightarrow> 'h native \<Rightarrow> 'h native" where
  "asyncScriptTimeout timeout h d =
     push (SetAsyncScriptTimeoutCb timeout h) (push (ClientAsyncScript timeout) d)"

definition waitFor :: "jsfunction \<Rightarrow> jsval list \<Rightarrow> jsnum \<Rightarrow> 'h \<Rightarrow> 'h native \<Rightarrow> 'h native" where
  "waitFor scr args timeout h d =
     push (WaitForCb (toString scr) args timeout h)
       (push (ClientExecute \<lparr>script = toString scr, arguments = args\<rparr>) d)"

definition thenLocal :: "localfn \<Rightarrow> 'h \<Rightarrow> 'h native \<Rightarrow> 'h native" where
  "thenLocal func h d = push (SetThenLocalCb func h) d"

section \<open>The result callbacks\<close>

text \<open>
  \<open>JSON.parse\<close> is a parameter \<open>parse\<close>: it raises a SyntaxError (\<open>Inl\<close>) or yields a value.
  A callback that raises does so before it has had any effect; otherwise it yields the
  receiver and the promise it returns.
\<close>

definition setExecuteCb ::
  "(string \<Rightarrow> error + jsval) \<Rightarrow> string \<Rightarrow> jsval list \<Rightarrow> 'h \<Rightarrow> string \<Rightarrow> 'h native
     \<Rightarrow> error + 'h native \<times> promise" where
  "setExecuteCb parse scr args h data d =
     (case parse data of Inl e \<Rightarrow> Inl e
      | Inr obj \<Rightarrow>
          (case get_prop obj ''value'' of Inl e \<Rightarrow> Inl e
           | Inr v \<Rightarrow>
               Inr (emit \<lparr>key = ''execute'', msg_value = Some v, errorMessage = None,
                          uuid = h, hash = h\<rparr> d, Resolved)))"

definition setExecuteAsyncCb ::
  "(string \<Rightarrow> error + jsval) \<Rightarrow> string \<Rightarrow> jsval list \<Rightarrow> 'h \<Rightarrow> string \<Rightarrow> 'h native
     \<Rightarrow> error + 'h native \<times> promise" where
  "setExecuteAsyncCb parse scr args h data d =
     (case parse data of Inl e \<Rightarrow> Inl e
      | Inr dataObj \<Rightarrow>
          (case get_prop dataObj ''status'' of Inl e \<Rightarrow> Inl e
           | Inr st \<Rightarrow>
               if st = JNum (Finite 0) then
                 (case get_prop dataObj ''value'' of Inl e \<Rightarrow> Inl e
                  | Inr v \<Rightarrow>
                      Inr (emit \<lparr>key = ''executeAsync'', msg_value = Some v,
                                 errorMessage = None, uuid = h, hash = h\<rparr> d, Resolved))
               else
                 (case get_prop dataObj ''value'' of Inl e \<Rightarrow> Inl e
                  | Inr v \<Rightarrow>
                      (case get_prop v ''message'' of Inl e \<Rightarrow> Inl e
                       | Inr m \<Rightarrow>
                           Inr (emit \<lparr>key = ''executeAsync'', msg_value = None,
                                      errorMessage = Some m, uuid = h, hash = h\<rparr> d,
                                Resolved)))))"

definition setAsyncScriptTimeoutCb :: "jsnum \<Rightarrow> 'h \<Rightarrow> 'h native \<Rightarrow> 'h native \<times> promise" where
  "setAsyncScriptTimeoutCb timeout h d =
     (emit \<lparr>key = ''asyncScriptTimeout'', msg_value = Some (JStr []), errorMessage = None,
            uuid = h, hash = h\<rparr> d, Resolved)"

text \<open>
  The local function is called with the callback that resolves the deferred; what it
  throws propagates.
\<close>

definition setThenLocalCb :: "localfn \<Rightarrow> 'h \<Rightarrow> 'h native \<Rightarrow> error + 'h native \<times> promise" where
  "setThenLocalCb func h d =
     (case func (\<lambda>_. Resolved) Pending of Inl e \<Rightarrow> Inl e | Inr deferred \<Rightarrow> Inr (d, deferred))"

section \<open>Waiting for a condition\<close>

text \<open>
  One call of the wait-for callback creates a closure that lives on after the call returns:
  the timer callback and \<open>checker\<close> share the variables \<open>deferred\<close> and \<open>timeoutId\<close>. The
  record holds the receiver, the bound arguments, these two variables, and what the runtime
  holds for this call: the armed timer (with the delay it was given) and the number of
  remote calls in flight whose result goes to \<open>checker\<close>.
\<close>

datatype timer_handle = Timeout

record 'h waiting =
  adapter :: "'h native"
  wscript :: string
  wargs :: "jsval list"
  whash :: 'h
  deferred :: promise
  timeoutId :: "timer_handle option"
  timer :: "jsnum option"
  polls :: nat

definition userRet :: "jsval \<Rightarrow> error + jsval" where
  "userRet v = (case get_prop v ''value'' of Inl e \<Rightarrow> Inl e | Inr x \<Rightarrow> get_prop x ''userRet'')"

definition waitFor_message :: "string \<Rightarrow> 'h \<Rightarrow> 'h message" where
  "waitFor_message v h =
     \<lparr>key = ''waitFor'', msg_value = Some (JStr v), errorMessage = None, uuid = h, hash = h\<rparr>"

definition wemit :: "'h message \<Rightarrow> 'h waiting \<Rightarrow> 'h waiting" where
  "wemit m w = w\<lparr>adapter := emit m (adapter w)\<rparr>"

text \<open>A timer handle is an object, hence truthy; \<open>clearTimeout\<close> disarms the timer.\<close>

definition clearWaitForTimeout :: "'h waiting \<Rightarrow> 'h waiting" where
  "clearWaitForTimeout w =
     (case timeoutId w of None \<Rightarrow> w | Some t \<Rightarrow> w\<lparr>timeoutId := None, timer := None\<rparr>)"

definition resolve :: "'h waiting \<Rightarrow> 'h waiting" where
  "resolve w = w\<lparr>deferred := Resolved\<rparr>"

text \<open>The remote call is issued at once; its result will be passed to \<open>checker\<close>.\<close>

definition poll :: "'h waiting \<Rightarrow> 'h waiting" where
  "poll w =
     w\<lparr>adapter := call_client (Execute \<lparr>script = wscript w, arguments = wargs w\<rparr>) (adapter w),
       polls := Suc (polls w)\<rparr>"

definition succeed :: "'h waiting \<Rightarrow> 'h waiting" where
  "succeed w = resolve (clearWaitForTimeout (wemit (waitFor_message [] (whash w)) w))"

definition checker :: "(string \<Rightarrow> error + jsval) \<Rightarrow> string \<Rightarrow> 'h waiting \<Rightarrow> error + 'h waiting" where
  "checker parse yData w =
     (case parse yData of Inl e \<Rightarrow> Inl e
      | Inr y \<Rightarrow>
          (case userRet y of Inl e \<Rightarrow> Inl e
           | Inr u \<Rightarrow> if u = JBool True then Inr (succeed w) else Inr (poll w)))"

definition on_timeout :: "'h waiting \<Rightarrow> 'h waiting" where
  "on_timeout w =
     resolve (clearWaitForTimeout (wemit (waitFor_message ''Interrupted by timeout'' (whash w)) w))"

text \<open>
  The callback itself. It can raise after the timer has been armed, so it yields the
  closure as it is when the call ends, with the exception if one was raised.
\<close>

definition waitForCb ::
  "(string \<Rightarrow> error + jsval) \<Rightarrow> string \<Rightarrow> jsval list \<Rightarrow> jsnum \<Rightarrow> 'h \<Rightarrow> string \<Rightarrow> 'h native
     \<Rightarrow> 'h waiting \<times> error option" where
  "waitForCb parse scr args timeout h data d =
     (let w0 = \<lparr>adapter = d, wscript = scr, wargs = args, whash = h, deferred = Pending,
                timeoutId = None, timer = None, polls = 0\<rparr>
      in case parse data of Inl e \<Rightarrow> (w0, Some e)
         | Inr ret \<Rightarrow>
             (let w1 = w0\<lparr>timeoutId := Some Timeout, timer := Some timeout\<rparr>
              in case userRet ret of Inl e \<Rightarrow> (w1, Some e)
                 | Inr u \<Rightarrow> if u = JBool True then (succeed w1, None) else (poll w1, None)))"

text \<open>
  What the runtime may do afterwards. The timer fires only while armed, and is then
  disarmed (it is one-shot) before its callback runs. A remote call in flight is resolved
  with some data, which goes to \<open>checker\<close>, or is rejected; an exception in \<open>checker\<close> is
  caught by the promise library and rejects the derived promise, which nobody observes.
\<close>

datatype wevent = TimerFires | PollResolves string | PollRejects

fun step :: "(string \<Rightarrow> error + jsval) \<Rightarrow> wevent \<Rightarrow> 'h waiting \<Rightarrow> 'h waiting" where
  "step parse TimerFires w =
     (case timer w of None \<Rightarrow> w | Some t \<Rightarrow> on_timeout (w\<lparr>timer := None\<rparr>))"
| "step parse (PollResolves yData) w =
     (if polls w = 0 then w
      else (let w' = w\<lparr>polls := polls w - 1\<rparr>
            in case checker parse yData w' of Inl e \<Rightarrow> w' | Inr w'' \<Rightarrow> w''))"
| "step parse PollRejects w = (if polls w = 0 then w else w\<lparr>polls := polls w - 1\<rparr>)"

fun run :: "(string \<Rightarrow> error + jsval) \<Rightarrow> wevent list \<Rightarrow> 'h waiting \<Rightarrow> 'h waiting" where
  "run parse [] w = w"
| "run parse (ev # evs) w = run parse evs (step parse ev w)"

section \<open>Calling a queue entry\<close>

text \<open>
  What a call of a queue entry by the runner does, with the result \<open>data\<close> of the entry
  before it: a client entry issues its remote call, a callback entry runs the callback.
\<close>

datatype 'h outcome =
    Requested "'h native"
  | Returned "'h native" promise
  | Raised error
  | Waits "'h waiting" "error option"

fun of_result :: "error + 'h native \<times> promise \<Rightarrow> 'h outcome" where
  "of_result (Inl e) = Raised e"
| "of_result (Inr (d, p)) = Returned d p"

fun invoke :: "(string \<Rightarrow> error + jsval) \<Rightarrow> 'h action \<Rightarrow> string \<Rightarrow> 'h native \<Rightarrow> 'h outcome" where
  "invoke parse (ClientExecute p) data d = Requested (call_client (Execute p) d)"
| "invoke parse (ClientExecuteAsync p) data d = Requested (call_client (ExecuteAsync p) d)"
| "invoke parse (ClientAsyncScript t) data d = Requested (call_client (AsyncScript t) d)"
| "invoke parse (SetExecuteCb scr args h) data d = of_result (setExecuteCb parse scr args h data d)"
| "invoke parse (SetExecuteAsyncCb scr args h) data d =
     of_result (setExecuteAsyncCb parse scr args h data d)"
| "invoke parse (SetAsyncScriptTimeoutCb t h) data d =
     of_result (Inr (setAsyncScriptTimeoutCb t h d))"
| "invoke parse (WaitForCb scr args t h) data d =
     (case waitForCb parse scr args t h data d of (w, e) \<Rightarrow> Waits w e)"
| "invoke parse (SetThenLocalCb func h) data d = of_result (setThenLocalCb func h d)"

section \<open>The command line\<close>

text \<open>
  A \<open>string\<close> stands for a JavaScript string whose code units are all below 256.
  \<open>s.split(',')\<close> cuts at every comma and keeps empty pieces; it never yields an empty
  array.
\<close>

fun split_comma :: "string \<Rightarrow> string list" where
  "split_comma [] = [[]]"
| "split_comma (c # cs) =
     (if c = CHR '','' then [] # split_comma cs
      else (case split_comma cs of [] \<Rightarrow> [[c]] | x # xs \<Rightarrow> (c # x) # xs))"

text \<open>
  The conversion of a string to a number, as unary \<open>+\<close> applies it: surrounding white space
  is dropped; the empty string is \<open>0\<close>; then a hexadecimal, octal or binary integer with its
  prefix, or an optionally signed \<open>Infinity\<close> or decimal literal (digits, an optional
  fraction, an optional exponent); anything else is \<open>NaN\<close>. The value is the exact one: the
  rounding to a double is not modelled, which leaves every integer below \<open>2^53\<close> and the
  outcome of \<open>isNaN\<close> as they are.
\<close>

definition is_space :: "char \<Rightarrow> bool" where
  "is_space c \<longleftrightarrow>
     c \<in> set [CHR 0x09, CHR 0x0A, CHR 0x0B, CHR 0x0C, CHR 0x0D, CHR 0x20, CHR 0xA0]"

definition trim :: "string \<Rightarrow> string" where
  "trim s = rev (dropWhile is_space (rev (dropWhile is_space s)))"

definition digit_of :: "char \<Rightarrow> nat option" where
  "digit_of c =
     (let n = (of_char c :: nat)
      in if 48 \<le> n \<and> n \<le> 57 then Some (n - 48)
         else if 97 \<le> n \<and> n \<le> 102 then Some (n - 87)
         else if 65 \<le> n \<and> n \<le> 70 then Some (n - 55)
         else None)"

definition is_digit :: "nat \<Rightarrow> char \<Rightarrow> bool" where
  "is_digit b c = (case digit_of c of None \<Rightarrow> False | Some n \<Rightarrow> n < b)"

text \<open>The value of a string of digits in base \<open>b\<close>, most significant first.\<close>

definition digits_value :: "nat \<Rightarrow> string \<Rightarrow> nat" where
  "digits_value b s = foldl (\<lambda>acc c. acc * b + (case digit_of c of None \<Rightarrow> 0 | Some n \<Rightarrow> n)) 0 s"

definition integer_literal :: "nat \<Rightarrow> string \<Rightarrow> jsnum" where
  "integer_literal b s =
     (if s \<noteq> [] \<and> list_all (is_digit b) s then Finite (of_nat (digits_value b s)) else NaN)"

definition exponent_part :: "string \<Rightarrow> int option" where
  "exponent_part s =
     (case s of [] \<Rightarrow> Some 0
      | c # r \<Rightarrow>
          if c = CHR ''e'' \<or> c = CHR ''E'' then
            (let neg = (r \<noteq> [] \<and> hd r = CHR ''-'');
                 ds = (if r \<noteq> [] \<and> (hd r = CHR ''-'' \<or> hd r = CHR ''+'') then tl r else r)
             in if ds \<noteq> [] \<and> list_all (is_digit 10) ds
                then Some (if neg then - int (digits_value 10 ds) else int (digits_value 10 ds))
                else None)
          else None)"

definition unsigned_decimal :: "string \<Rightarrow> rat option" where
  "unsigned_decimal s =
     (let ip = takeWhile (is_digit 10) s;
          r1 = dropWhile (is_digit 10) s;
          dot = (r1 \<noteq> [] \<and> hd r1 = CHR ''.'');
          fp = (if dot then takeWhile (is_digit 10) (tl r1) else []);
          r2 = (if dot then dropWhile (is_digit 10) (tl r1) else r1)
      in if ip = [] \<and> fp = [] then None
         else (case exponent_part r2 of None \<Rightarrow> None
               | Some e \<Rightarrow>
                   (let m = of_nat (digits_value 10 ip)
                            + of_nat (digits_value 10 fp) / 10 ^ length fp
                    in Some (if 0 \<le> e then m * 10 ^ nat e else m / 10 ^ nat (- e)))))"

definition string_to_number :: "string \<Rightarrow> jsnum" where
  "string_to_number s =
     (let t = trim s
      in if t = [] then Finite 0
         else if take 2 t = ''0x'' \<or> take 2 t = ''0X'' then integer_literal 16 (drop 2 t)
         else if take 2 t = ''0o'' \<or> take 2 t = ''0O'' then integer_literal 8 (drop 2 t)
         else if take 2 t = ''0b'' \<or> take 2 t = ''0B'' then integer_literal 2 (drop 2 t)
         else (let neg = (hd t = CHR ''-'');
                   u = (if hd t = CHR ''-'' \<or> hd t = CHR ''+'' then tl t else t)
               in if u = ''Infinity'' then (if neg then NegInfinity else PosInfinity)
                  else (case unsigned_decimal u of None \<Rightarrow> NaN
                        | Some r \<Rightarrow> Finite (if neg then - r else r))))"

text \<open>Unary \<open>+\<close> on an array element: an index out of range reads \<open>undefined\<close>, which is \<open>NaN\<close>.\<close>

definition unary_plus_at :: "string list \<Rightarrow> nat \<Rightarrow> jsnum" where
  "unary_plus_at xs i = (if i < length xs then string_to_number (xs ! i) else NaN)"

definition isNaN :: "jsnum \<Rightarrow> bool" where
  "isNaN n \<longleftrightarrow> n = NaN"

fun truthy :: "jsval \<Rightarrow> bool" where
  "truthy JUndefined = False"
| "truthy JNull = False"
| "truthy (JBool b) = b"
| "truthy (JNum n) = (n \<noteq> NaN \<and> n \<noteq> Finite 0)"
| "truthy (JStr s) = (s \<noteq> [])"
| "truthy (JArr xs) = True"
| "truthy (JObj ps) = True"

text \<open>
  The method call \<open>v.split(',')\<close>: only a string has the method, on any other value the
  call raises a TypeError.
\<close>

fun split_method :: "jsval \<Rightarrow> error + string list" where
  "split_method (JStr s) = Inr (split_comma s)"
| "split_method v = Inl TypeError"

text \<open>The expression \<open>v ? v.split(',') : []\<close>.\<close>

definition comma_list :: "jsval \<Rightarrow> error + string list" where
  "comma_list v = (if truthy v then split_method v else Inr [])"

text \<open>
  The configuration object handed to the runner. The parsed arguments \<open>argv\<close> map a flag's
  name to its value, \<open>undefined\<close> when the flag is absent. The variable \<open>viewportOption\<close> is
  assigned only when the flag's value is truthy, and stays \<open>undefined\<close> otherwise.
\<close>

record config =
  tests :: jsval
  driver :: "string list"
  reporter :: "string list"
  browser :: "string list"
  viewport :: jsval
  logLevel :: jsval
  baseUrl :: jsval
  noColors :: jsval
  noSymbols :: jsval
  remote :: jsval

definition viewportOption :: "jsval \<Rightarrow> error + jsval" where
  "viewportOption v =
     (if truthy v then
        (case split_method v of Inl e \<Rightarrow> Inl e
         | Inr viewportDimensions \<Rightarrow>
             (let viewportWidth = unary_plus_at viewportDimensions 0;
                  viewportHeight = unary_plus_at viewportDimensions 1
              in Inr (if isNaN viewportWidth \<or> isNaN viewportHeight then JObj []
                      else JObj [(''width'', JNum viewportWidth),
                                 (''height'', JNum viewportHeight)])))
      else Inr JUndefined)"

definition loadDalek :: "(string \<Rightarrow> jsval) \<Rightarrow> error + config" where
  "loadDalek argv =
     (case viewportOption (argv ''viewport'') of Inl e \<Rightarrow> Inl e
      | Inr vo \<Rightarrow>
     (case comma_list (argv ''driver'') of Inl e \<Rightarrow> Inl e
      | Inr d \<Rightarrow>
     (case comma_list (argv ''reporter'') of Inl e \<Rightarrow> Inl e
      | Inr r \<Rightarrow>
     (case comma_list (argv ''browser'') of Inl e \<Rightarrow> Inl e
      | Inr b \<Rightarrow>
          Inr \<lparr>tests = argv ''_'', driver = d, reporter = r, browser = b,
               viewport = (if truthy (argv ''viewport'') then vo else JObj []),
               logLevel = argv ''logLevel'', baseUrl = argv ''baseUrl'',
               noColors = argv ''nocolors'', noSymbols = argv ''nosymbols'',
               remote = argv ''remote''\<rparr>))))"

text \<open>
  The parsed arguments when exactly the listed flags are given, with no test files, each
  flag with a text that the command-line parser leaves a string: it does so for a flag
  declared as a string (\<open>driver\<close>, \<open>reporter\<close>, \<open>browser\<close>) and for a text that does not read
  as a number (as \<open>800,600\<close> for \<open>viewport\<close>). The flags \<open>nocolors\<close> and \<open>nosymbols\<close> are
  declared as booleans and are not among the listed ones: the parser sets them to \<open>false\<close>.
  Any other absent flag is \<open>undefined\<close>.
\<close>

definition argv_of :: "(string \<times> string) list \<Rightarrow> string \<Rightarrow> jsval" where
  "argv_of flags k =
     (if k = ''_'' then JArr []
      else if k = ''nocolors'' \<or> k = ''nosymbols'' then JBool False
      else (case map_of flags k of None \<Rightarrow> JUndefined | Some s \<Rightarrow> JStr s))"

section \<open>Concrete data\<close>

text \<open>
  \<open>JSON.parse\<close> on a few texts, for running the callbacks on concrete data. A text outside
  the table raises, as \<open>JSON.parse\<close> does on the one such text used below, \<open><html>\<close>.
\<close>

definition sample_parse :: "string \<Rightarrow> error + jsval" where
  \<open>sample_parse s =
     (case map_of
        [(''{"status":0,"value":42}'',
            JObj [(''status'', JNum (Finite 0)), (''value'', JNum (Finite 42))]),
         (''{"status":13,"value":{"message":"boom"}}'',
            JObj [(''status'', JNum (Finite 13)),
                  (''value'', JObj [(''message'', JStr ''boom'')])]),
         (''{"status":13,"value":null}'',
            JObj [(''status'', JNum (Finite 13)), (''value'', JNull)]),
         (''{"status":0,"value":{"userRet":true}}'',
            JObj [(''status'', JNum (Finite 0)),
                  (''value'', JObj [(''userRet'', JBool True)])]),
         (''{"status":0,"value":{"userRet":false}}'',
            JObj [(''status'', JNum (Finite 0)),
                  (''value'', JObj [(''userRet'', JBool False)])])] s
      of None \<Rightarrow> Inl SyntaxError | Some v \<Rightarrow> Inr v)\<close>

text \<open>An adapter that has queued, emitted and requested nothing yet.\<close>

definition fresh :: "string native" where
  "fresh = \<lparr>actionQueue = [], events = [], webdriverClient = []\<rparr>"

definition sample_script :: jsfunction where
  "sample_script = Function ''function () { return document.title; }''"

section \<open>Predicates used in the statements\<close>

text \<open>
  The polled script reports the true sentinel: the result parses and its \<open>value.userRet\<close>
  is strictly \<open>true\<close>.
\<close>

definition reports_true :: "(string \<Rightarrow> error + jsval) \<Rightarrow> string \<Rightarrow> bool" where
  "reports_true parse yData =
     (case parse yData of Inl e \<Rightarrow> False | Inr y \<Rightarrow> userRet y = Inr (JBool True))"

text \<open>While the runtime holds an armed timer, \<open>timeoutId\<close> holds its handle.\<close>

definition armed_has_handle :: "'h waiting \<Rightarrow> bool" where
  "armed_has_handle w \<longleftrightarrow> (timer w = None \<or> timeoutId w \<noteq> None)"

section \<open>Queueing\<close>

lemma push_push:
  "push b (push a d) = d\<lparr>actionQueue := actionQueue d @ [a, b]\<rparr>"
  by (simp add: push_def)

text \<open>
  C5. For every script, argument list and correlation hash, \<open>execute\<close> returns the receiver
  with exactly two entries appended to the action queue and nothing else changed (no
  message emitted, no remote call made, so neither entry has been called). The first entry,
  when called, makes the remote execute-script call with the script's text and the
  arguments; the second, when called with the result, parses it and emits a message with
  key \<open>execute\<close> that carries the parsed result's \<open>value\<close> (and no error message).
\<close>

theorem execute_appends_two_entries:
  fixes d d' :: "'h native"
  shows "execute scr args h d =
           d\<lparr>actionQueue := actionQueue d @
                [ClientExecute \<lparr>script = toString scr, arguments = args\<rparr>,
                 SetExecuteCb (toString scr) args h]\<rparr>
         \<and> length (actionQueue (execute scr args h d)) = length (actionQueue d) + 2
         \<and> events (execute scr args h d) = events d
         \<and> webdriverClient (execute scr args h d) = webdriverClient d
         \<and> invoke parse (ClientExecute \<lparr>script = toString scr, arguments = args\<rparr>) data d' =
             Requested (d'\<lparr>webdriverClient := webdriverClient d' @
                          [Execute \<lparr>script = toString scr, arguments = args\<rparr>]\<rparr>)
         \<and> invoke parse (SetExecuteCb (toString scr) args h) data d' =
             (case parse data of Inl e \<Rightarrow> Raised e
              | Inr obj \<Rightarrow>
                  (case get_prop obj ''value'' of Inl e \<Rightarrow> Raised e
                   | Inr v \<Rightarrow>
                       Returned (d'\<lparr>events := events d' @
                                   [\<lparr>key = ''execute'', msg_value = Some v,
                                     errorMessage = None, uuid = h, hash = h\<rparr>]\<rparr>)
                                Resolved))"
  by (simp add: execute_def push_push setExecuteCb_def emit_def call_client_def
      split: sum.split)

theorem execute_appends_two_entries_witness:
  \<open>execute sample_script [JNum (Finite 7)] ''h1'' fresh =
     \<lparr>actionQueue =
        [ClientExecute \<lparr>script = ''function () { return document.title; }'',
                        arguments = [JNum (Finite 7)]\<rparr>,
         SetExecuteCb ''function () { return document.title; }'' [JNum (Finite 7)] ''h1''],
      events = [], webdriverClient = []\<rparr>
   \<and> invoke sample_parse
        (SetExecuteCb ''function () { return document.title; }'' [JNum (Finite 7)] ''h1'')
        ''{"status":0,"value":42}'' fresh =
      Returned
        \<lparr>actionQueue = [],
         events = [\<lparr>key = ''execute'', msg_value = Some (JNum (Finite 42)),
                    errorMessage = None, uuid = ''h1'', hash = ''h1''\<rparr>],
         webdriverClient = []\<rparr>
        Resolved\<close>
  using execute_appends_two_entries
    [of sample_script "[JNum (Finite 7)]" "''h1''" fresh sample_parse
        \<open>''{"status":0,"value":42}''\<close> fresh]
  by (simp add: fresh_def sample_script_def sample_parse_def)

text \<open>
  C6. For every timeout value and correlation hash, \<open>asyncScriptTimeout\<close> returns the
  receiver with two entries appended: the first, when called, makes the remote client's
  call that sets the async-script timeout, with the given milliseconds; the second, when
  called, emits a message with key \<open>asyncScriptTimeout\<close> whose value is the empty string
  whatever the remote call returned, and resolves.
\<close>

theorem asyncScriptTimeout_enqueues_call_then_message:
  fixes d d' :: "'h native"
  shows "asyncScriptTimeout ms h d =
           d\<lparr>actionQueue := actionQueue d @
                [ClientAsyncScript ms, SetAsyncScriptTimeoutCb ms h]\<rparr>
         \<and> invoke parse (ClientAsyncScript ms) data d' =
             Requested (d'\<lparr>webdriverClient := webdriverClient d' @ [AsyncScript ms]\<rparr>)
         \<and> invoke parse (SetAsyncScriptTimeoutCb ms h) data d' =
             Returned (d'\<lparr>events := events d' @
                         [\<lparr>key = ''asyncScriptTimeout'', msg_value = Some (JStr []),
                           errorMessage = None, uuid = h, hash = h\<rparr>]\<rparr>)
                      Resolved"
  by (simp add: asyncScriptTimeout_def push_push setAsyncScriptTimeoutCb_def emit_def
      call_client_def)

theorem asyncScriptTimeout_enqueues_call_then_message_witness:
  "asyncScriptTimeout (Finite 5000) ''h2'' fresh =
     \<lparr>actionQueue = [ClientAsyncScript (Finite 5000),
                     SetAsyncScriptTimeoutCb (Finite 5000) ''h2''],
      events = [], webdriverClient = []\<rparr>
   \<and> invoke sample_parse (SetAsyncScriptTimeoutCb (Finite 5000) ''h2'') ''<html>'' fresh =
      Returned
        \<lparr>actionQueue = [],
         events = [\<lparr>key = ''asyncScriptTimeout'', msg_value = Some (JStr []),
                    errorMessage = None, uuid = ''h2'', hash = ''h2''\<rparr>],
         webdriverClient = []\<rparr>
        Resolved"
  using asyncScriptTimeout_enqueues_call_then_message
    [of "Finite 5000" "''h2''" fresh sample_parse "''<html>''" fresh]
  by (simp add: fresh_def)

text \<open>
  C10. Each public method, at the time it is called, only appends to the action queue: the
  result is the receiver with the old queue kept as a prefix, in order, and the new entries
  after it; the events emitted and the remote calls made are as before, so no entry has
  been called. \<open>thenLocal\<close> appends one entry, the other four append two.
\<close>

theorem public_methods_only_append:
  fixes d :: "'h native"
  shows "execute scr args h d =
           d\<lparr>actionQueue := actionQueue d @
                [ClientExecute \<lparr>script = toString scr, arguments = args\<rparr>,
                 SetExecuteCb (toString scr) args h]\<rparr>
         \<and> executeAsync scr args h d =
           d\<lparr>actionQueue := actionQueue d @
                [ClientExecuteAsync \<lparr>script = toString scr, arguments = args\<rparr>,
                 SetExecuteAsyncCb (toString scr) args h]\<rparr>
         \<and> asyncScriptTimeout ms h d =
           d\<lparr>actionQueue := actionQueue d @
                [ClientAsyncScript ms, SetAsyncScriptTimeoutCb ms h]\<rparr>
         \<and> waitFor scr args ms h d =
           d\<lparr>actionQueue := actionQueue d @
                [ClientExecute \<lparr>script = toString scr, arguments = args\<rparr>,
                 WaitForCb (toString scr) args ms h]\<rparr>
         \<and> thenLocal func h d = d\<lparr>actionQueue := actionQueue d @ [SetThenLocalCb func h]\<rparr>
         \<and> (\<forall>r \<in> {execute scr args h d, executeAsync scr args h d,
                    asyncScriptTimeout ms h d, waitFor scr args ms h d, thenLocal func h d}.
               take (length (actionQueue d)) (actionQueue r) = actionQueue d
               \<and> events r = events d \<and> webdriverClient r = webdriverClient d)"
  by (simp add: execute_def executeAsync_def asyncScriptTimeout_def waitFor_def thenLocal_def
      push_push) (simp add: push_def)

theorem public_methods_only_append_witness:
  "thenLocal (\<lambda>done p. Inr (done p)) ''h4''
     (waitFor sample_script [] (Finite 3000) ''h3'' fresh) =
     \<lparr>actionQueue =
        [ClientExecute \<lparr>script = ''function () { return document.title; }'', arguments = []\<rparr>,
         WaitForCb ''function () { return document.title; }'' [] (Finite 3000) ''h3'',
         SetThenLocalCb (\<lambda>done p. Inr (done p)) ''h4''],
      events = [], webdriverClient = []\<rparr>"
  using
    public_methods_only_append
      [of sample_script "[]" "''h3''" fresh "Finite 3000" "\<lambda>done p. Inr (done p)"]
    public_methods_only_append
      [of sample_script "[]" "''h4''" "waitFor sample_script [] (Finite 3000) ''h3'' fresh"
          "Finite 3000" "\<lambda>done p. Inr (done p)"]
  by (simp add: fresh_def sample_script_def)

section \<open>Waiting: what is emitted, and when\<close>

lemma get_prop_raises:
  "get_prop v k = Inl e \<longleftrightarrow> (v = JUndefined \<or> v = JNull) \<and> e = TypeError"
  by (cases v) auto

lemma succeed_simps:
  "adapter (succeed w) = emit (waitFor_message [] (whash w)) (adapter w)"
  "whash (succeed w) = whash w"
  "deferred (succeed w) = Resolved"
  "polls (succeed w) = polls w"
  "timeoutId (succeed w) = None"
  "armed_has_handle w \<Longrightarrow> timer (succeed w) = None"
  by (auto simp: succeed_def resolve_def clearWaitForTimeout_def wemit_def armed_has_handle_def
      split: option.splits)

lemma on_timeout_simps:
  "adapter (on_timeout w) = emit (waitFor_message ''Interrupted by timeout'' (whash w)) (adapter w)"
  "whash (on_timeout w) = whash w"
  "deferred (on_timeout w) = Resolved"
  "polls (on_timeout w) = polls w"
  "timeoutId (on_timeout w) = None"
  "armed_has_handle w \<Longrightarrow> timer (on_timeout w) = None"
  by (auto simp: on_timeout_def resolve_def clearWaitForTimeout_def wemit_def armed_has_handle_def
      split: option.splits)

lemma poll_simps:
  "events (adapter (poll w)) = events (adapter w)"
  "whash (poll w) = whash w"
  "timer (poll w) = timer w"
  "timeoutId (poll w) = timeoutId w"
  "polls (poll w) = Suc (polls w)"
  by (simp_all add: poll_def call_client_def)

lemma events_emit: "events (emit m d) = events d @ [m]"
  by (simp add: emit_def)

lemma step_quiet:
  assumes "ev \<noteq> TimerFires" and "\<forall>y. ev = PollResolves y \<longrightarrow> \<not> reports_true parse y"
  shows "events (adapter (step parse ev w)) = events (adapter w)
         \<and> timer (step parse ev w) = timer w
         \<and> timeoutId (step parse ev w) = timeoutId w
         \<and> whash (step parse ev w) = whash w"
  using assms
  by (cases ev) (auto simp: checker_def reports_true_def poll_simps Let_def split: sum.splits)

lemma step_timer:
  assumes "armed_has_handle w"
  shows "events (adapter (step parse TimerFires w)) =
           events (adapter w) @
             (if timer w = None then []
              else [waitFor_message ''Interrupted by timeout'' (whash w)])
         \<and> timer (step parse TimerFires w) = None
         \<and> whash (step parse TimerFires w) = whash w"
  using assms
  by (auto simp: on_timeout_simps events_emit armed_has_handle_def split: option.splits)

lemma run_quiet_disarmed:
  assumes "timer w = None" and "\<forall>y. PollResolves y \<in> set evs \<longrightarrow> \<not> reports_true parse y"
  shows "events (adapter (run parse evs w)) = events (adapter w)"
  using assms
proof (induction evs arbitrary: w)
  case Nil
  then show ?case by simp
next
  case (Cons ev evs)
  show ?case
  proof (cases "ev = TimerFires")
    case True
    with Cons show ?thesis by simp
  next
    case False
    with Cons.prems have q: "events (adapter (step parse ev w)) = events (adapter w)
         \<and> timer (step parse ev w) = timer w"
      using step_quiet [of ev parse w] by simp
    with Cons show ?thesis by simp
  qed
qed

lemma run_quiet:
  assumes "armed_has_handle w" and "timer w \<noteq> None"
    and "\<forall>y. PollResolves y \<in> set evs \<longrightarrow> \<not> reports_true parse y"
  shows "events (adapter (run parse evs w)) =
           events (adapter w) @
             (if TimerFires \<in> set evs
              then [waitFor_message ''Interrupted by timeout'' (whash w)] else [])"
  using assms
proof (induction evs arbitrary: w)
  case Nil
  then show ?case by simp
next
  case (Cons ev evs)
  show ?case
  proof (cases "ev = TimerFires")
    case True
    from Cons.prems(1) have s: "events (adapter (step parse TimerFires w)) =
           events (adapter w) @
             (if timer w = None then []
              else [waitFor_message ''Interrupted by timeout'' (whash w)])"
      and t: "timer (step parse TimerFires w) = None"
      using step_timer [of w parse] by simp_all
    from Cons.prems(3) have "\<forall>y. PollResolves y \<in> set evs \<longrightarrow> \<not> reports_true parse y"
      by simp
    with t have "events (adapter (run parse evs (step parse TimerFires w))) =
        events (adapter (step parse TimerFires w))"
      by (rule run_quiet_disarmed)
    with s True Cons.prems(2) show ?thesis by simp
  next
    case False
    with Cons.prems have q: "events (adapter (step parse ev w)) = events (adapter w)"
      "timer (step parse ev w) = timer w" "timeoutId (step parse ev w) = timeoutId w"
      "whash (step parse ev w) = whash w"
      using step_quiet [of ev parse w] by simp_all
    with Cons.prems have "armed_has_handle (step parse ev w)" "timer (step parse ev w) \<noteq> None"
      by (simp_all add: armed_has_handle_def)
    with Cons.IH [of "step parse ev w"] Cons.prems(3) q False show ?thesis
      by simp
  qed
qed

lemma run_idle:
  assumes "timer w = None" and "polls w = 0"
  shows "run parse evs w = w"
  using assms
proof (induction evs)
  case Nil
  then show ?case by simp
next
  case (Cons ev evs)
  then have "step parse ev w = w" by (cases ev) simp_all
  with Cons show ?case by simp
qed

lemma waitForCb_parsed:
  assumes "parse data = Inr ret"
  shows "waitForCb parse scr args timeout h data d =
     (let w1 = \<lparr>adapter = d, wscript = scr, wargs = args, whash = h, deferred = Pending,
                timeoutId = Some Timeout, timer = Some timeout, polls = 0\<rparr>
      in case userRet ret of Inl e \<Rightarrow> (w1, Some e)
         | Inr u \<Rightarrow> if u = JBool True then (succeed w1, None) else (poll w1, None))"
  using assms by (simp add: waitForCb_def)

lemma waitForCb_not_true:
  assumes "parse data = Inr ret" and "userRet ret \<noteq> Inr (JBool True)"
  shows "timer (fst (waitForCb parse scr args timeout h data d)) = Some timeout"
    and "timeoutId (fst (waitForCb parse scr args timeout h data d)) = Some Timeout"
    and "events (adapter (fst (waitForCb parse scr args timeout h data d))) = events d"
    and "whash (fst (waitForCb parse scr args timeout h data d)) = h"
  using assms
  by (auto simp: waitForCb_parsed poll_simps Let_def split: sum.splits)

text \<open>
  C1. Take a wait-for call whose first result parses and does not report the true sentinel,
  and let the runtime then deliver any sequence of timer and poll events in which no poll
  result reports the true sentinel. The call arms a timer with the configured delay and
  emits nothing itself. After the events, no message has been emitted if the timer has not
  fired, and exactly one, tagged \<open>Interrupted by timeout\<close>, if it has: a poll response that
  arrives after the timer has fired emits no second message.
\<close>

theorem waitFor_never_true_one_timeout_message:
  assumes "parse data = Inr ret" and "userRet ret \<noteq> Inr (JBool True)"
    and "\<forall>y. PollResolves y \<in> set evs \<longrightarrow> \<not> reports_true parse y"
  shows "timer (fst (waitForCb parse scr args timeout h data d)) = Some timeout
       \<and> events (adapter (fst (waitForCb parse scr args timeout h data d))) = events d
       \<and> events (adapter (run parse evs (fst (waitForCb parse scr args timeout h data d)))) =
           events d @
             (if TimerFires \<in> set evs
              then [\<lparr>key = ''waitFor'', msg_value = Some (JStr ''Interrupted by timeout''),
                     errorMessage = None, uuid = h, hash = h\<rparr>]
              else [])"
proof -
  let ?w = "fst (waitForCb parse scr args timeout h data d)"
  have w: "timer ?w = Some timeout" "timeoutId ?w = Some Timeout"
    "events (adapter ?w) = events d" "whash ?w = h"
    using assms(1,2) by (simp_all add: waitForCb_not_true [where ret = ret])
  then have "armed_has_handle ?w" and "timer ?w \<noteq> None"
    by (simp_all add: armed_has_handle_def)
  from run_quiet [OF this assms(3)] w show ?thesis
    by (simp add: waitFor_message_def)
qed

theorem waitFor_never_true_one_timeout_message_witness:
  \<open>sample_parse ''{"status":0,"value":{"userRet":false}}'' =
     Inr (JObj [(''status'', JNum (Finite 0)), (''value'', JObj [(''userRet'', JBool False)])])
   \<and> events (adapter (run sample_parse
        [PollResolves ''{"status":0,"value":{"userRet":false}}'', PollRejects, TimerFires,
         PollResolves ''{"status":0,"value":{"userRet":false}}'',
         PollResolves ''{"status":13,"value":{"message":"boom"}}'']
        (fst (waitForCb sample_parse ''function () { return false; }'' [] (Finite 3000) ''h5''
               ''{"status":0,"value":{"userRet":false}}'' fresh)))) =
     [\<lparr>key = ''waitFor'', msg_value = Some (JStr ''Interrupted by timeout''),
       errorMessage = None, uuid = ''h5'', hash = ''h5''\<rparr>]\<close>
  using waitFor_never_true_one_timeout_message
    [of sample_parse \<open>''{"status":0,"value":{"userRet":false}}''\<close>
        "JObj [(''status'', JNum (Finite 0)), (''value'', JObj [(''userRet'', JBool False)])]"
        \<open>[PollResolves ''{"status":0,"value":{"userRet":false}}'', PollRejects, TimerFires,
         PollResolves ''{"status":0,"value":{"userRet":false}}'',
         PollResolves ''{"status":13,"value":{"message":"boom"}}'']\<close>
        "''function () { return false; }''" "[]" "Finite 3000" "''h5''" fresh]
  by (simp add: sample_parse_def reports_true_def userRet_def fresh_def)

text \<open>
  C4. When the first result of a wait-for call parses and reports the true sentinel, the
  callback itself emits exactly one message, with key \<open>waitFor\<close>, the empty string as value
  and no error message; it resolves, and leaves no timer armed and no remote call in flight.
  Whatever the runtime does afterwards changes nothing, so no timeout message follows.
\<close>

theorem waitFor_immediately_true_one_message:
  assumes "parse data = Inr ret" and "userRet ret = Inr (JBool True)"
  shows "waitForCb parse scr args timeout h data d =
           (\<lparr>adapter = d\<lparr>events := events d @
                           [\<lparr>key = ''waitFor'', msg_value = Some (JStr []),
                             errorMessage = None, uuid = h, hash = h\<rparr>]\<rparr>,
             wscript = scr, wargs = args, whash = h, deferred = Resolved,
             timeoutId = None, timer = None, polls = 0\<rparr>, None)
       \<and> (\<forall>parse' evs.
            run parse' evs (fst (waitForCb parse scr args timeout h data d)) =
              fst (waitForCb parse scr args timeout h data d))"
proof -
  have eq: "waitForCb parse scr args timeout h data d =
           (\<lparr>adapter = d\<lparr>events := events d @
                           [\<lparr>key = ''waitFor'', msg_value = Some (JStr []),
                             errorMessage = None, uuid = h, hash = h\<rparr>]\<rparr>,
             wscript = scr, wargs = args, whash = h, deferred = Resolved,
             timeoutId = None, timer = None, polls = 0\<rparr>, None)"
    using assms
    by (simp add: waitForCb_parsed succeed_def resolve_def clearWaitForTimeout_def wemit_def
        emit_def waitFor_message_def)
  then have "timer (fst (waitForCb parse scr args timeout h data d)) = None"
    and "polls (fst (waitForCb parse scr args timeout h data d)) = 0"
    by simp_all
  then have "run parse' evs (fst (waitForCb parse scr args timeout h data d)) =
              fst (waitForCb parse scr args timeout h data d)" for parse' evs
    by (rule run_idle)
  with eq show ?thesis by blast
qed

theorem waitFor_immediately_true_one_message_witness:
  \<open>events (adapter (run sample_parse
        [TimerFires, PollResolves ''{"status":0,"value":{"userRet":true}}'', TimerFires]
        (fst (waitForCb sample_parse ''function () { return true; }'' [] (Finite 3000) ''h6''
               ''{"status":0,"value":{"userRet":true}}'' fresh)))) =
     [\<lparr>key = ''waitFor'', msg_value = Some (JStr []),
       errorMessage = None, uuid = ''h6'', hash = ''h6''\<rparr>]
   \<and> timer (fst (waitForCb sample_parse ''function () { return true; }'' [] (Finite 3000) ''h6''
               ''{"status":0,"value":{"userRet":true}}'' fresh)) = None\<close>
  using waitFor_immediately_true_one_message
    [of sample_parse \<open>''{"status":0,"value":{"userRet":true}}''\<close>
        "JObj [(''status'', JNum (Finite 0)), (''value'', JObj [(''userRet'', JBool True)])]"
        "''function () { return true; }''" "[]" "Finite 3000" "''h6''" fresh]
  by (simp add: sample_parse_def userRet_def fresh_def)

section \<open>The correlation hash\<close>

lemma step_hash:
  "\<exists>ms. events (adapter (step parse ev w)) = events (adapter w) @ ms
        \<and> (\<forall>m \<in> set ms. uuid m = whash w \<and> hash m = whash w)
        \<and> whash (step parse ev w) = whash w"
proof (cases ev)
  case TimerFires
  then show ?thesis
    by (cases "timer w")
       (simp_all add: on_timeout_simps events_emit waitFor_message_def)
next
  case (PollResolves y)
  then show ?thesis
    by (auto simp: checker_def succeed_simps poll_simps events_emit waitFor_message_def Let_def
        split: sum.splits)
next
  case PollRejects
  then show ?thesis by simp
qed

lemma run_hash:
  "\<exists>ms. events (adapter (run parse evs w)) = events (adapter w) @ ms
        \<and> (\<forall>m \<in> set ms. uuid m = whash w \<and> hash m = whash w)"
proof (induction evs arbitrary: w)
  case Nil
  then show ?case by simp
next
  case (Cons ev evs)
  from step_hash [of parse ev w] obtain ms1 where
    s: "events (adapter (step parse ev w)) = events (adapter w) @ ms1"
       "\<forall>m \<in> set ms1. uuid m = whash w \<and> hash m = whash w"
       "whash (step parse ev w) = whash w"
    by blast
  from Cons.IH [of "step parse ev w"] obtain ms2 where
    r: "events (adapter (run parse evs (step parse ev w))) =
          events (adapter (step parse ev w)) @ ms2"
       "\<forall>m \<in> set ms2. uuid m = whash (step parse ev w) \<and> hash m = whash (step parse ev w)"
    by blast
  from s r have "events (adapter (run parse (ev # evs) w)) = events (adapter w) @ (ms1 @ ms2)"
    and "\<forall>m \<in> set (ms1 @ ms2). uuid m = whash w \<and> hash m = whash w"
    by auto
  then show ?case by blast
qed

lemma waitForCb_hash:
  "\<exists>ms. events (adapter (fst (waitForCb parse scr args t h data d))) = events d @ ms
        \<and> (\<forall>m \<in> set ms. uuid m = h \<and> hash m = h)
        \<and> whash (fst (waitForCb parse scr args t h data d)) = h"
  by (auto simp: waitForCb_def succeed_simps poll_simps events_emit waitFor_message_def Let_def
      split: sum.splits)

text \<open>
  C9. Every message that a result callback emits carries the correlation hash given to the
  public method, as its \<open>uuid\<close> and as its \<open>hash\<close>, which are therefore equal. For wait-for
  this covers the messages of the callback, of its timer and of \<open>checker\<close>, after any
  sequence of events and whatever the results are.
\<close>

theorem messages_carry_the_correlation_hash:
  fixes d :: "'h native"
  shows
  "(\<forall>d' p. setExecuteCb parse scr args h data d = Inr (d', p) \<longrightarrow>
      (\<exists>ms. events d' = events d @ ms \<and> (\<forall>m \<in> set ms. uuid m = hash m \<and> hash m = h)))
   \<and> (\<forall>d' p. setExecuteAsyncCb parse scr args h data d = Inr (d', p) \<longrightarrow>
      (\<exists>ms. events d' = events d @ ms \<and> (\<forall>m \<in> set ms. uuid m = hash m \<and> hash m = h)))
   \<and> (\<exists>ms. events (fst (setAsyncScriptTimeoutCb t h d)) = events d @ ms
         \<and> (\<forall>m \<in> set ms. uuid m = hash m \<and> hash m = h))
   \<and> (\<exists>ms. events (adapter (run parse evs (fst (waitForCb parse scr args t h data d)))) =
           events d @ ms
         \<and> (\<forall>m \<in> set ms. uuid m = hash m \<and> hash m = h))"
proof -
  have a: "\<forall>d' p. setExecuteCb parse scr args h data d = Inr (d', p) \<longrightarrow>
      (\<exists>ms. events d' = events d @ ms \<and> (\<forall>m \<in> set ms. uuid m = hash m \<and> hash m = h))"
    by (auto simp: setExecuteCb_def events_emit split: sum.splits)
  have b: "\<forall>d' p. setExecuteAsyncCb parse scr args h data d = Inr (d', p) \<longrightarrow>
      (\<exists>ms. events d' = events d @ ms \<and> (\<forall>m \<in> set ms. uuid m = hash m \<and> hash m = h))"
    by (auto simp: setExecuteAsyncCb_def events_emit split: sum.splits if_splits)
  have c: "\<exists>ms. events (fst (setAsyncScriptTimeoutCb t h d)) = events d @ ms
         \<and> (\<forall>m \<in> set ms. uuid m = hash m \<and> hash m = h)"
    by (simp add: setAsyncScriptTimeoutCb_def events_emit)
  let ?w = "fst (waitForCb parse scr args t h data d)"
  from waitForCb_hash [of parse scr args t h data d] obtain ms1 where
    w: "events (adapter ?w) = events d @ ms1" "\<forall>m \<in> set ms1. uuid m = h \<and> hash m = h"
       "whash ?w = h"
    by blast
  from run_hash [of parse evs ?w] obtain ms2 where
    r: "events (adapter (run parse evs ?w)) = events (adapter ?w) @ ms2"
       "\<forall>m \<in> set ms2. uuid m = whash ?w \<and> hash m = whash ?w"
    by blast
  from w r have "events (adapter (run parse evs ?w)) = events d @ (ms1 @ ms2)"
    and "\<forall>m \<in> set (ms1 @ ms2). uuid m = hash m \<and> hash m = h"
    by auto
  then have e: "\<exists>ms. events (adapter (run parse evs ?w)) = events d @ ms
         \<and> (\<forall>m \<in> set ms. uuid m = hash m \<and> hash m = h)"
    by blast
  from a b c e show ?thesis by blast
qed

theorem messages_carry_the_correlation_hash_witness:
  \<open>events (adapter (run sample_parse
       [PollResolves ''{"status":0,"value":{"userRet":false}}'', TimerFires,
        PollResolves ''{"status":0,"value":{"userRet":true}}'']
       (fst (waitForCb sample_parse ''function () { return window.ready; }'' [] (Finite 3000)
              ''h7'' ''{"status":0,"value":{"userRet":false}}'' fresh)))) =
     [\<lparr>key = ''waitFor'', msg_value = Some (JStr ''Interrupted by timeout''),
       errorMessage = None, uuid = ''h7'', hash = ''h7''\<rparr>,
      \<lparr>key = ''waitFor'', msg_value = Some (JStr []),
       errorMessage = None, uuid = ''h7'', hash = ''h7''\<rparr>]
   \<and> list_all (\<lambda>m. uuid m = ''h7'' \<and> hash m = ''h7'')
       (events (adapter (run sample_parse
         [PollResolves ''{"status":0,"value":{"userRet":false}}'', TimerFires,
          PollResolves ''{"status":0,"value":{"userRet":true}}'']
         (fst (waitForCb sample_parse ''function () { return window.ready; }'' []
                (Finite 3000) ''h7'' ''{"status":0,"value":{"userRet":false}}'' fresh)))))\<close>
proof -
  let ?w = \<open>run sample_parse
       [PollResolves ''{"status":0,"value":{"userRet":false}}'', TimerFires,
        PollResolves ''{"status":0,"value":{"userRet":true}}'']
       (fst (waitForCb sample_parse ''function () { return window.ready; }'' [] (Finite 3000)
              ''h7'' ''{"status":0,"value":{"userRet":false}}'' fresh))\<close>
  have ev: "events (adapter ?w) =
     [\<lparr>key = ''waitFor'', msg_value = Some (JStr ''Interrupted by timeout''),
       errorMessage = None, uuid = ''h7'', hash = ''h7''\<rparr>,
      \<lparr>key = ''waitFor'', msg_value = Some (JStr []),
       errorMessage = None, uuid = ''h7'', hash = ''h7''\<rparr>]"
    by (simp add: waitForCb_def sample_parse_def userRet_def fresh_def poll_def call_client_def
        checker_def succeed_def on_timeout_def resolve_def clearWaitForTimeout_def wemit_def
        emit_def waitFor_message_def)
  from messages_carry_the_correlation_hash
    [of sample_parse "''function () { return window.ready; }''" "[]" "''h7''"
        \<open>''{"status":0,"value":{"userRet":false}}''\<close> fresh "Finite 3000"
        \<open>[PollResolves ''{"status":0,"value":{"userRet":false}}'', TimerFires,
          PollResolves ''{"status":0,"value":{"userRet":true}}'']\<close>]
  obtain ms where ms: "events (adapter ?w) = events fresh @ ms"
    and h: "\<forall>m \<in> set ms. uuid m = hash m \<and> hash m = ''h7''"
    by blast
  have "events fresh = []" by (simp add: fresh_def)
  with ms have "events (adapter ?w) = ms" by (simp only: append_Nil)
  with h have "\<forall>m \<in> set (events (adapter ?w)). uuid m = ''h7'' \<and> hash m = ''h7''"
    by metis
  then have "list_all (\<lambda>m. uuid m = ''h7'' \<and> hash m = ''h7'') (events (adapter ?w))"
    by (simp only: list_all_iff)
  with ev show ?thesis by blast
qed

section \<open>Values, error messages and exceptions\<close>

text \<open>
  C3, as stated, fails: a result with a nonzero status whose value is \<open>null\<close> makes the
  callback raise a TypeError, so no message is emitted for it.
\<close>

theorem executeAsync_null_value_counterexample:
  \<open>setExecuteAsyncCb sample_parse ''function (done) { done(1); }'' [] ''h8''
     ''{"status":13,"value":null}'' fresh = Inl TypeError\<close>
  by (simp add: setExecuteAsyncCb_def sample_parse_def)

text \<open>
  C3, amended. Let the result parse to a value other than \<open>null\<close> and \<open>undefined\<close>, so that
  its \<open>status\<close> and \<open>value\<close> can be read. When the status is the number \<open>0\<close>, the callback
  emits one message with key \<open>executeAsync\<close> whose value is the result's \<open>value\<close>, without an
  error message. When it is not, and \<open>value.message\<close> can be read, the callback emits one
  message whose error message is \<open>value.message\<close>, without a value; when \<open>value\<close> is \<open>null\<close>
  or \<open>undefined\<close> it raises a TypeError instead. Whenever the callback returns, it has
  emitted exactly one message, which has a value or an error message and never both.
\<close>

theorem executeAsync_value_or_errorMessage:
  fixes d :: "'h native"
  shows
  "(\<forall>dataObj st v.
      parse data = Inr dataObj \<and> get_prop dataObj ''status'' = Inr st
        \<and> get_prop dataObj ''value'' = Inr v \<longrightarrow>
      (st = JNum (Finite 0) \<longrightarrow>
         setExecuteAsyncCb parse scr args h data d =
           Inr (d\<lparr>events := events d @
                   [\<lparr>key = ''executeAsync'', msg_value = Some v, errorMessage = None,
                     uuid = h, hash = h\<rparr>]\<rparr>, Resolved))
      \<and> (st \<noteq> JNum (Finite 0) \<longrightarrow>
           (\<forall>m. get_prop v ''message'' = Inr m \<longrightarrow>
              setExecuteAsyncCb parse scr args h data d =
                Inr (d\<lparr>events := events d @
                        [\<lparr>key = ''executeAsync'', msg_value = None, errorMessage = Some m,
                          uuid = h, hash = h\<rparr>]\<rparr>, Resolved))
           \<and> (v = JUndefined \<or> v = JNull \<longrightarrow>
                setExecuteAsyncCb parse scr args h data d = Inl TypeError)))
   \<and> (\<forall>d' p. setExecuteAsyncCb parse scr args h data d = Inr (d', p) \<longrightarrow>
         (\<exists>m. events d' = events d @ [m] \<and> key m = ''executeAsync''
              \<and> (msg_value m = None \<longleftrightarrow> errorMessage m \<noteq> None)))"
proof -
  have a: "\<forall>dataObj st v.
      parse data = Inr dataObj \<and> get_prop dataObj ''status'' = Inr st
        \<and> get_prop dataObj ''value'' = Inr v \<longrightarrow>
      (st = JNum (Finite 0) \<longrightarrow>
         setExecuteAsyncCb parse scr args h data d =
           Inr (d\<lparr>events := events d @
                   [\<lparr>key = ''executeAsync'', msg_value = Some v, errorMessage = None,
                     uuid = h, hash = h\<rparr>]\<rparr>, Resolved))
      \<and> (st \<noteq> JNum (Finite 0) \<longrightarrow>
           (\<forall>m. get_prop v ''message'' = Inr m \<longrightarrow>
              setExecuteAsyncCb parse scr args h data d =
                Inr (d\<lparr>events := events d @
                        [\<lparr>key = ''executeAsync'', msg_value = None, errorMessage = Some m,
                          uuid = h, hash = h\<rparr>]\<rparr>, Resolved))
           \<and> (v = JUndefined \<or> v = JNull \<longrightarrow>
                setExecuteAsyncCb parse scr args h data d = Inl TypeError))"
    by (auto simp: setExecuteAsyncCb_def emit_def)
  have b: "\<forall>d' p. setExecuteAsyncCb parse scr args h data d = Inr (d', p) \<longrightarrow>
         (\<exists>m. events d' = events d @ [m] \<and> key m = ''executeAsync''
              \<and> (msg_value m = None \<longleftrightarrow> errorMessage m \<noteq> None))"
    by (auto simp: setExecuteAsyncCb_def emit_def split: sum.splits if_splits)
  from a b show ?thesis by blast
qed

theorem executeAsync_value_or_errorMessage_witness:
  \<open>setExecuteAsyncCb sample_parse ''function (done) { done(1); }'' [] ''h8''
     ''{"status":0,"value":42}'' fresh =
     Inr (\<lparr>actionQueue = [],
           events = [\<lparr>key = ''executeAsync'', msg_value = Some (JNum (Finite 42)),
                      errorMessage = None, uuid = ''h8'', hash = ''h8''\<rparr>],
           webdriverClient = []\<rparr>, Resolved)
   \<and> setExecuteAsyncCb sample_parse ''function (done) { done(1); }'' [] ''h8''
     ''{"status":13,"value":{"message":"boom"}}'' fresh =
     Inr (\<lparr>actionQueue = [],
           events = [\<lparr>key = ''executeAsync'', msg_value = None,
                      errorMessage = Some (JStr ''boom''), uuid = ''h8'', hash = ''h8''\<rparr>],
           webdriverClient = []\<rparr>, Resolved)\<close>
  using
    executeAsync_value_or_errorMessage
      [of sample_parse \<open>''{"status":0,"value":42}''\<close> "''function (done) { done(1); }''" "[]"
          "''h8''" fresh]
    executeAsync_value_or_errorMessage
      [of sample_parse \<open>''{"status":13,"value":{"message":"boom"}}''\<close>
          "''function (done) { done(1); }''" "[]" "''h8''" fresh]
  by (simp add: sample_parse_def fresh_def)

text \<open>
  C2, as stated, fails: the wait-for callback raises a TypeError on a result whose value is
  \<open>null\<close>.
\<close>

theorem waitFor_callback_raises_counterexample:
  \<open>snd (waitForCb sample_parse ''function () { return window.ready; }'' [] (Finite 3000) ''h9''
          ''{"status":13,"value":null}'' fresh) = Some TypeError\<close>
  by (simp add: waitForCb_def sample_parse_def userRet_def)

text \<open>
  C2, amended. The five public methods, given a script that is a function, do not raise:
  each returns the receiver with its entries appended. A result callback raises in these
  cases and no others. The callbacks of \<open>execute\<close>, \<open>executeAsync\<close> and \<open>waitFor\<close> raise what
  \<open>JSON.parse\<close> raises on the result, and a TypeError when the result parses to \<open>null\<close> (or
  \<open>undefined\<close>); the one of \<open>executeAsync\<close> also raises a TypeError when the status is not
  \<open>0\<close> and \<open>value\<close> is \<open>null\<close> or \<open>undefined\<close>, the one of \<open>waitFor\<close> also when \<open>value\<close> is
  \<open>null\<close> or \<open>undefined\<close>. The callback of \<open>asyncScriptTimeout\<close> never raises, and the one
  of \<open>thenLocal\<close> raises exactly what the local function throws. A remote failure reported
  with a status other than \<open>0\<close> and a \<open>value\<close> whose \<open>message\<close> can be read is thrown by no
  callback. Only the callback of \<open>executeAsync\<close> looks at the status: it forwards
  \<open>value.message\<close> in the message's \<open>errorMessage\<close>. The callback of \<open>execute\<close> forwards the
  result's \<open>value\<close> as the message's value, whatever the status. The callback of \<open>waitFor\<close>
  emits nothing for a result that does not report the true sentinel, whatever the status:
  it arms the timer and polls again.
\<close>

theorem callbacks_raise_only_on_malformed_results:
  fixes d :: "'h native"
  shows
  "(invoke parse (SetExecuteCb scr args h) data d = Raised e \<longleftrightarrow>
      parse data = Inl e
      \<or> (\<exists>P. parse data = Inr P \<and> (P = JUndefined \<or> P = JNull) \<and> e = TypeError))
   \<and> (invoke parse (SetExecuteAsyncCb scr args h) data d = Raised e \<longleftrightarrow>
      parse data = Inl e
      \<or> (\<exists>P. parse data = Inr P \<and> e = TypeError
            \<and> (P = JUndefined \<or> P = JNull
                \<or> get_prop P ''status'' \<noteq> Inr (JNum (Finite 0))
                  \<and> (get_prop P ''value'' = Inr JUndefined
                      \<or> get_prop P ''value'' = Inr JNull))))
   \<and> invoke parse (SetAsyncScriptTimeoutCb t h) data d \<noteq> Raised e
   \<and> (invoke parse (WaitForCb scr args t h) data d
        = Waits (fst (waitForCb parse scr args t h data d)) (Some e) \<longleftrightarrow>
      parse data = Inl e
      \<or> (\<exists>P. parse data = Inr P \<and> e = TypeError
            \<and> (P = JUndefined \<or> P = JNull
                \<or> get_prop P ''value'' = Inr JUndefined
                \<or> get_prop P ''value'' = Inr JNull)))
   \<and> (invoke parse (SetThenLocalCb func h) data d = Raised e \<longleftrightarrow>
        func (\<lambda>_. Resolved) Pending = Inl e)
   \<and> (\<forall>P st v m.
        parse data = Inr P \<and> get_prop P ''status'' = Inr st \<and> st \<noteq> JNum (Finite 0)
          \<and> get_prop P ''value'' = Inr v \<and> get_prop v ''message'' = Inr m \<longrightarrow>
        invoke parse (SetExecuteAsyncCb scr args h) data d =
          Returned (d\<lparr>events := events d @
                      [\<lparr>key = ''executeAsync'', msg_value = None, errorMessage = Some m,
                        uuid = h, hash = h\<rparr>]\<rparr>) Resolved)
   \<and> (\<forall>P v.
        parse data = Inr P \<and> get_prop P ''value'' = Inr v \<longrightarrow>
        invoke parse (SetExecuteCb scr args h) data d =
          Returned (d\<lparr>events := events d @
                      [\<lparr>key = ''execute'', msg_value = Some v, errorMessage = None,
                        uuid = h, hash = h\<rparr>]\<rparr>) Resolved)
   \<and> (\<forall>P u.
        parse data = Inr P \<and> userRet P = Inr u \<and> u \<noteq> JBool True \<longrightarrow>
        invoke parse (WaitForCb scr args t h) data d =
          Waits \<lparr>adapter = d\<lparr>webdriverClient := webdriverClient d @
                                [Execute \<lparr>script = scr, arguments = args\<rparr>]\<rparr>,
                 wscript = scr, wargs = args, whash = h, deferred = Pending,
                 timeoutId = Some Timeout, timer = Some t, polls = 1\<rparr> None)
   \<and> execute fn args h d =
        d\<lparr>actionQueue := actionQueue d @
             [ClientExecute \<lparr>script = toString fn, arguments = args\<rparr>,
              SetExecuteCb (toString fn) args h]\<rparr>
   \<and> executeAsync fn args h d =
        d\<lparr>actionQueue := actionQueue d @
             [ClientExecuteAsync \<lparr>script = toString fn, arguments = args\<rparr>,
              SetExecuteAsyncCb (toString fn) args h]\<rparr>
   \<and> asyncScriptTimeout t h d =
        d\<lparr>actionQueue := actionQueue d @ [ClientAsyncScript t, SetAsyncScriptTimeoutCb t h]\<rparr>
   \<and> waitFor fn args t h d =
        d\<lparr>actionQueue := actionQueue d @
             [ClientExecute \<lparr>script = toString fn, arguments = args\<rparr>,
              WaitForCb (toString fn) args t h]\<rparr>
   \<and> thenLocal func h d = d\<lparr>actionQueue := actionQueue d @ [SetThenLocalCb func h]\<rparr>"
proof -
  have a: "invoke parse (SetExecuteCb scr args h) data d = Raised e \<longleftrightarrow>
      parse data = Inl e
      \<or> (\<exists>P. parse data = Inr P \<and> (P = JUndefined \<or> P = JNull) \<and> e = TypeError)"
    by (auto simp: setExecuteCb_def get_prop_raises split: sum.splits)
  have b: "invoke parse (SetExecuteAsyncCb scr args h) data d = Raised e \<longleftrightarrow>
      parse data = Inl e
      \<or> (\<exists>P. parse data = Inr P \<and> e = TypeError
            \<and> (P = JUndefined \<or> P = JNull
                \<or> get_prop P ''status'' \<noteq> Inr (JNum (Finite 0))
                  \<and> (get_prop P ''value'' = Inr JUndefined
                      \<or> get_prop P ''value'' = Inr JNull)))"
  proof (cases "parse data")
    case (Inl x)
    then show ?thesis by (auto simp: setExecuteAsyncCb_def)
  next
    case (Inr P)
    show ?thesis
    proof (cases "P = JUndefined \<or> P = JNull")
      case True
      with Inr show ?thesis by (auto simp: setExecuteAsyncCb_def)
    next
      case False
      then obtain st v where sv: "get_prop P ''status'' = Inr st" "get_prop P ''value'' = Inr v"
        by (cases P) auto
      with Inr False show ?thesis
        by (cases "get_prop v ''message''")
           (auto simp: setExecuteAsyncCb_def get_prop_raises)
    qed
  qed
  have c: "invoke parse (SetAsyncScriptTimeoutCb t h) data d \<noteq> Raised e"
    by (simp add: setAsyncScriptTimeoutCb_def)
  have w: "invoke parse (WaitForCb scr args t h) data d
        = Waits (fst (waitForCb parse scr args t h data d)) (Some e) \<longleftrightarrow>
      parse data = Inl e
      \<or> (\<exists>P. parse data = Inr P \<and> e = TypeError
            \<and> (P = JUndefined \<or> P = JNull
                \<or> get_prop P ''value'' = Inr JUndefined
                \<or> get_prop P ''value'' = Inr JNull))"
  proof (cases "parse data")
    case (Inl x)
    then show ?thesis by (auto simp: waitForCb_def)
  next
    case (Inr P)
    show ?thesis
    proof (cases "P = JUndefined \<or> P = JNull")
      case True
      with Inr show ?thesis by (auto simp: waitForCb_def userRet_def)
    next
      case False
      then obtain v where v: "get_prop P ''value'' = Inr v"
        by (cases P) auto
      with Inr False show ?thesis
        by (cases "get_prop v ''userRet''")
           (auto simp: waitForCb_def userRet_def get_prop_raises Let_def)
    qed
  qed
  have l: "invoke parse (SetThenLocalCb func h) data d = Raised e \<longleftrightarrow>
        func (\<lambda>_. Resolved) Pending = Inl e"
    by (auto simp: setThenLocalCb_def split: sum.splits)
  have f: "\<forall>P st v m.
        parse data = Inr P \<and> get_prop P ''status'' = Inr st \<and> st \<noteq> JNum (Finite 0)
          \<and> get_prop P ''value'' = Inr v \<and> get_prop v ''message'' = Inr m \<longrightarrow>
        invoke parse (SetExecuteAsyncCb scr args h) data d =
          Returned (d\<lparr>events := events d @
                      [\<lparr>key = ''executeAsync'', msg_value = None, errorMessage = Some m,
                        uuid = h, hash = h\<rparr>]\<rparr>) Resolved"
    by (auto simp: setExecuteAsyncCb_def emit_def)
  have g: "\<forall>P v.
        parse data = Inr P \<and> get_prop P ''value'' = Inr v \<longrightarrow>
        invoke parse (SetExecuteCb scr args h) data d =
          Returned (d\<lparr>events := events d @
                      [\<lparr>key = ''execute'', msg_value = Some v, errorMessage = None,
                        uuid = h, hash = h\<rparr>]\<rparr>) Resolved"
    by (auto simp: setExecuteCb_def emit_def)
  have p: "\<forall>P u.
        parse data = Inr P \<and> userRet P = Inr u \<and> u \<noteq> JBool True \<longrightarrow>
        invoke parse (WaitForCb scr args t h) data d =
          Waits \<lparr>adapter = d\<lparr>webdriverClient := webdriverClient d @
                                [Execute \<lparr>script = scr, arguments = args\<rparr>]\<rparr>,
                 wscript = scr, wargs = args, whash = h, deferred = Pending,
                 timeoutId = Some Timeout, timer = Some t, polls = 1\<rparr> None"
    by (auto simp: waitForCb_def poll_def call_client_def)
  have m1: "execute fn args h d =
        d\<lparr>actionQueue := actionQueue d @
             [ClientExecute \<lparr>script = toString fn, arguments = args\<rparr>,
              SetExecuteCb (toString fn) args h]\<rparr>"
    by (simp add: execute_def push_push)
  have m2: "executeAsync fn args h d =
        d\<lparr>actionQueue := actionQueue d @
             [ClientExecuteAsync \<lparr>script = toString fn, arguments = args\<rparr>,
              SetExecuteAsyncCb (toString fn) args h]\<rparr>"
    by (simp add: executeAsync_def push_push)
  have m3: "asyncScriptTimeout t h d =
        d\<lparr>actionQueue := actionQueue d @ [ClientAsyncScript t, SetAsyncScriptTimeoutCb t h]\<rparr>"
    by (simp add: asyncScriptTimeout_def push_push)
  have m4: "waitFor fn args t h d =
        d\<lparr>actionQueue := actionQueue d @
             [ClientExecute \<lparr>script = toString fn, arguments = args\<rparr>,
              WaitForCb (toString fn) args t h]\<rparr>"
    by (simp add: waitFor_def push_push)
  have m5: "thenLocal func h d = d\<lparr>actionQueue := actionQueue d @ [SetThenLocalCb func h]\<rparr>"
    by (simp add: thenLocal_def push_def)
  from a b c w l f g p m1 m2 m3 m4 m5 show ?thesis by blast
qed

theorem callbacks_raise_only_on_malformed_results_witness:
  \<open>invoke sample_parse (SetExecuteAsyncCb ''function (done) { done(1); }'' [] ''h9'')
     ''{"status":13,"value":{"message":"boom"}}'' fresh =
     Returned
       \<lparr>actionQueue = [],
        events = [\<lparr>key = ''executeAsync'', msg_value = None,
                   errorMessage = Some (JStr ''boom''), uuid = ''h9'', hash = ''h9''\<rparr>],
        webdriverClient = []\<rparr>
       Resolved
   \<and> invoke sample_parse (SetExecuteCb ''function (done) { done(1); }'' [] ''h9'')
       ''{"status":13,"value":{"message":"boom"}}'' fresh =
     Returned
       \<lparr>actionQueue = [],
        events = [\<lparr>key = ''execute'',
                   msg_value = Some (JObj [(''message'', JStr ''boom'')]),
                   errorMessage = None, uuid = ''h9'', hash = ''h9''\<rparr>],
        webdriverClient = []\<rparr>
       Resolved
   \<and> invoke sample_parse
       (WaitForCb ''function (done) { done(1); }'' [] (Finite 3000) ''h9'')
       ''{"status":13,"value":{"message":"boom"}}'' fresh =
     Waits
       \<lparr>adapter =
          \<lparr>actionQueue = [], events = [],
           webdriverClient =
             [Execute \<lparr>script = ''function (done) { done(1); }'', arguments = []\<rparr>]\<rparr>,
        wscript = ''function (done) { done(1); }'', wargs = [], whash = ''h9'',
        deferred = Pending, timeoutId = Some Timeout, timer = Some (Finite 3000),
        polls = 1\<rparr>
       None
   \<and> invoke sample_parse (SetExecuteCb ''function () { return 1; }'' [] ''h9'')
       ''<html>'' fresh = Raised SyntaxError\<close>
proof -
  note inst = callbacks_raise_only_on_malformed_results
      [where parse = sample_parse and scr = "''function (done) { done(1); }''" and args = "[]"
         and h = "''h9''" and d = fresh and t = "Finite 3000"
         and data = \<open>''{"status":13,"value":{"message":"boom"}}''\<close>]
  have pd: \<open>sample_parse ''{"status":13,"value":{"message":"boom"}}'' =
      Inr (JObj [(''status'', JNum (Finite 13)),
                 (''value'', JObj [(''message'', JStr ''boom'')])])\<close>
    by (simp add: sample_parse_def)
  have ur: "userRet (JObj [(''status'', JNum (Finite 13)),
                 (''value'', JObj [(''message'', JStr ''boom'')])]) = Inr JUndefined"
    by (simp add: userRet_def)
  have gs: "get_prop (JObj [(''status'', JNum (Finite 13)),
                 (''value'', JObj [(''message'', JStr ''boom'')])]) ''status''
              = Inr (JNum (Finite 13))"
    "get_prop (JObj [(''status'', JNum (Finite 13)),
                 (''value'', JObj [(''message'', JStr ''boom'')])]) ''value''
              = Inr (JObj [(''message'', JStr ''boom'')])"
    "get_prop (JObj [(''message'', JStr ''boom'')]) ''message'' = Inr (JStr ''boom'')"
    "JNum (Finite 13) \<noteq> JNum (Finite 0)" "JUndefined \<noteq> JBool True"
    by simp_all
  from inst pd gs have c1:
    \<open>invoke sample_parse (SetExecuteAsyncCb ''function (done) { done(1); }'' [] ''h9'')
       ''{"status":13,"value":{"message":"boom"}}'' fresh =
     Returned (fresh\<lparr>events := events fresh @
                 [\<lparr>key = ''executeAsync'', msg_value = None,
                   errorMessage = Some (JStr ''boom''), uuid = ''h9'', hash = ''h9''\<rparr>]\<rparr>)
       Resolved\<close>
    by blast
  from inst pd gs have c2:
    \<open>invoke sample_parse (SetExecuteCb ''function (done) { done(1); }'' [] ''h9'')
       ''{"status":13,"value":{"message":"boom"}}'' fresh =
     Returned (fresh\<lparr>events := events fresh @
                 [\<lparr>key = ''execute'', msg_value = Some (JObj [(''message'', JStr ''boom'')]),
                   errorMessage = None, uuid = ''h9'', hash = ''h9''\<rparr>]\<rparr>)
       Resolved\<close>
    by blast
  from inst pd ur gs have c3:
    \<open>invoke sample_parse
       (WaitForCb ''function (done) { done(1); }'' [] (Finite 3000) ''h9'')
       ''{"status":13,"value":{"message":"boom"}}'' fresh =
     Waits \<lparr>adapter = fresh\<lparr>webdriverClient := webdriverClient fresh @
                [Execute \<lparr>script = ''function (done) { done(1); }'', arguments = []\<rparr>]\<rparr>,
            wscript = ''function (done) { done(1); }'', wargs = [], whash = ''h9'',
            deferred = Pending, timeoutId = Some Timeout, timer = Some (Finite 3000),
            polls = 1\<rparr> None\<close>
    by blast
  have ph: "sample_parse ''<html>'' = Inl SyntaxError"
    by (simp add: sample_parse_def)
  from callbacks_raise_only_on_malformed_results
      [where parse = sample_parse and scr = "''function () { return 1; }''" and args = "[]"
         and h = "''h9''" and d = fresh and data = "''<html>''" and e = SyntaxError] ph
  have c4: "invoke sample_parse (SetExecuteCb ''function () { return 1; }'' [] ''h9'')
       ''<html>'' fresh = Raised SyntaxError"
    by blast
  have fr: "fresh\<lparr>events := events fresh @ ms\<rparr> =
      \<lparr>actionQueue = [], events = ms, webdriverClient = []\<rparr>"
    "fresh\<lparr>webdriverClient := webdriverClient fresh @ rs\<rparr> =
      \<lparr>actionQueue = [], events = [], webdriverClient = rs\<rparr>" for ms rs
    by (simp_all add: fresh_def)
  from c1 c2 c3 c4 show ?thesis
    by (simp only: fr)
qed

section \<open>The configuration built from the command line\<close>

lemma comma_list_Inr:
  "(\<exists>xs. comma_list v = Inr xs) \<longleftrightarrow> \<not> truthy v \<or> (\<exists>s. v = JStr s)"
  by (cases v) (auto simp: comma_list_def)

lemma viewportOption_Inr:
  "(\<exists>x. viewportOption v = Inr x) \<longleftrightarrow> \<not> truthy v \<or> (\<exists>s. v = JStr s)"
  by (cases v) (auto simp: viewportOption_def Let_def)

lemma loadDalek_returns:
  "(\<exists>cfg. loadDalek argv = Inr cfg) \<longleftrightarrow>
     (\<forall>k \<in> {''viewport'', ''driver'', ''reporter'', ''browser''}.
        \<not> truthy (argv k) \<or> (\<exists>s. argv k = JStr s))"
proof -
  have "(\<exists>cfg. loadDalek argv = Inr cfg) \<longleftrightarrow>
      (\<exists>x. viewportOption (argv ''viewport'') = Inr x)
      \<and> (\<exists>xs. comma_list (argv ''driver'') = Inr xs)
      \<and> (\<exists>xs. comma_list (argv ''reporter'') = Inr xs)
      \<and> (\<exists>xs. comma_list (argv ''browser'') = Inr xs)"
    by (auto simp: loadDalek_def split: sum.splits)
  then show ?thesis
    by (simp add: comma_list_Inr viewportOption_Inr)
qed

lemma loadDalek_fields:
  assumes "loadDalek argv = Inr cfg"
  shows "comma_list (argv ''driver'') = Inr (driver cfg)"
    and "comma_list (argv ''reporter'') = Inr (reporter cfg)"
    and "comma_list (argv ''browser'') = Inr (browser cfg)"
    and "truthy (argv ''viewport'') \<Longrightarrow> viewportOption (argv ''viewport'') = Inr (viewport cfg)"
    and "\<not> truthy (argv ''viewport'') \<Longrightarrow> viewport cfg = JObj []"
  using assms by (auto simp: loadDalek_def split: sum.splits)

text \<open>
  C7. With \<open>--viewport 800,600\<close> the configuration's viewport is
  \<open>{width: 800, height: 600}\<close>; with \<open>--viewport foo,600\<close> or \<open>--viewport 800,foo\<close> it is the
  empty object. In general, when the flag's value is a non-empty string, the viewport is the
  empty object if the conversion to a number of the first or of the second comma-separated
  piece is \<open>NaN\<close>, and the pair of the two numbers otherwise.
\<close>

theorem viewport_flag_parsing:
  "(\<forall>cfg s. loadDalek argv = Inr cfg \<and> argv ''viewport'' = JStr s \<and> s \<noteq> [] \<longrightarrow>
      viewport cfg =
        (if isNaN (unary_plus_at (split_comma s) 0) \<or> isNaN (unary_plus_at (split_comma s) 1)
         then JObj []
         else JObj [(''width'', JNum (unary_plus_at (split_comma s) 0)),
                    (''height'', JNum (unary_plus_at (split_comma s) 1))]))
   \<and> loadDalek (argv_of [(''viewport'', ''800,600'')]) =
       Inr \<lparr>tests = JArr [], driver = [], reporter = [], browser = [],
            viewport = JObj [(''width'', JNum (Finite 800)), (''height'', JNum (Finite 600))],
            logLevel = JUndefined, baseUrl = JUndefined, noColors = JBool False,
            noSymbols = JBool False, remote = JUndefined\<rparr>
   \<and> loadDalek (argv_of [(''viewport'', ''foo,600'')]) =
       Inr \<lparr>tests = JArr [], driver = [], reporter = [], browser = [],
            viewport = JObj [],
            logLevel = JUndefined, baseUrl = JUndefined, noColors = JBool False,
            noSymbols = JBool False, remote = JUndefined\<rparr>
   \<and> loadDalek (argv_of [(''viewport'', ''800,foo'')]) =
       Inr \<lparr>tests = JArr [], driver = [], reporter = [], browser = [],
            viewport = JObj [],
            logLevel = JUndefined, baseUrl = JUndefined, noColors = JBool False,
            noSymbols = JBool False, remote = JUndefined\<rparr>"
proof -
  have g: "\<forall>cfg s. loadDalek argv = Inr cfg \<and> argv ''viewport'' = JStr s \<and> s \<noteq> [] \<longrightarrow>
      viewport cfg =
        (if isNaN (unary_plus_at (split_comma s) 0) \<or> isNaN (unary_plus_at (split_comma s) 1)
         then JObj []
         else JObj [(''width'', JNum (unary_plus_at (split_comma s) 0)),
                    (''height'', JNum (unary_plus_at (split_comma s) 1))])"
  proof (intro allI impI)
    fix cfg s
    assume a: "loadDalek argv = Inr cfg \<and> argv ''viewport'' = JStr s \<and> s \<noteq> []"
    then have "viewportOption (argv ''viewport'') = Inr (viewport cfg)"
      using loadDalek_fields(4) [of argv cfg] by simp
    with a show "viewport cfg =
        (if isNaN (unary_plus_at (split_comma s) 0) \<or> isNaN (unary_plus_at (split_comma s) 1)
         then JObj []
         else JObj [(''width'', JNum (unary_plus_at (split_comma s) 0)),
                    (''height'', JNum (unary_plus_at (split_comma s) 1))])"
      by (auto simp: viewportOption_def Let_def)
  qed
  have c1: "loadDalek (argv_of [(''viewport'', ''800,600'')]) =
       Inr \<lparr>tests = JArr [], driver = [], reporter = [], browser = [],
            viewport = JObj [(''width'', JNum (Finite 800)), (''height'', JNum (Finite 600))],
            logLevel = JUndefined, baseUrl = JUndefined, noColors = JBool False,
            noSymbols = JBool False, remote = JUndefined\<rparr>"
    by code_simp
  have c2: "loadDalek (argv_of [(''viewport'', ''foo,600'')]) =
       Inr \<lparr>tests = JArr [], driver = [], reporter = [], browser = [],
            viewport = JObj [],
            logLevel = JUndefined, baseUrl = JUndefined, noColors = JBool False,
            noSymbols = JBool False, remote = JUndefined\<rparr>"
    by code_simp
  have c3: "loadDalek (argv_of [(''viewport'', ''800,foo'')]) =
       Inr \<lparr>tests = JArr [], driver = [], reporter = [], browser = [],
            viewport = JObj [],
            logLevel = JUndefined, baseUrl = JUndefined, noColors = JBool False,
            noSymbols = JBool False, remote = JUndefined\<rparr>"
    by code_simp
  from g c1 c2 c3 show ?thesis by blast
qed

theorem viewport_flag_parsing_witness:
  "loadDalek (argv_of [(''viewport'', ''1024,768''), (''driver'', ''native'')]) =
     Inr \<lparr>tests = JArr [], driver = [''native''], reporter = [], browser = [],
          viewport = JObj [(''width'', JNum (Finite 1024)), (''height'', JNum (Finite 768))],
          logLevel = JUndefined, baseUrl = JUndefined, noColors = JBool False,
          noSymbols = JBool False, remote = JUndefined\<rparr>
   \<and> JObj [(''width'', JNum (Finite 1024)), (''height'', JNum (Finite 768))] =
       (if isNaN (unary_plus_at (split_comma ''1024,768'') 0)
           \<or> isNaN (unary_plus_at (split_comma ''1024,768'') 1)
        then JObj []
        else JObj [(''width'', JNum (unary_plus_at (split_comma ''1024,768'') 0)),
                   (''height'', JNum (unary_plus_at (split_comma ''1024,768'') 1))])"
proof -
  let ?argv = "argv_of [(''viewport'', ''1024,768''), (''driver'', ''native'')]"
  let ?cfg = "\<lparr>tests = JArr [], driver = [''native''], reporter = [], browser = [],
          viewport = JObj [(''width'', JNum (Finite 1024)), (''height'', JNum (Finite 768))],
          logLevel = JUndefined, baseUrl = JUndefined, noColors = JBool False,
          noSymbols = JBool False, remote = JUndefined\<rparr>"
  have r: "loadDalek ?argv = Inr ?cfg"
    by code_simp
  have a: "?argv ''viewport'' = JStr ''1024,768''"
    by (simp add: argv_of_def)
  have ne: "''1024,768'' \<noteq> ([] :: string)"
    by simp
  have v: "viewport ?cfg =
      JObj [(''width'', JNum (Finite 1024)), (''height'', JNum (Finite 768))]"
    by simp
  from viewport_flag_parsing [of ?argv] r a ne
  have "viewport ?cfg =
       (if isNaN (unary_plus_at (split_comma ''1024,768'') 0)
           \<or> isNaN (unary_plus_at (split_comma ''1024,768'') 1)
        then JObj []
        else JObj [(''width'', JNum (unary_plus_at (split_comma ''1024,768'') 0)),
                   (''height'', JNum (unary_plus_at (split_comma ''1024,768'') 1))])"
    by blast
  with v r show ?thesis by (simp only:) 
qed

text \<open>
  C8. With \<open>--driver a,b,c\<close> the configuration's \<open>driver\<close> field is the sequence
  \<open>a\<close>, \<open>b\<close>, \<open>c\<close>, in this order; without \<open>--driver\<close> it is empty. In general each of the
  fields \<open>driver\<close>, \<open>reporter\<close> and \<open>browser\<close> is the flag's non-empty string value cut at
  its commas, and empty when the flag is absent.
\<close>

theorem comma_flags_become_ordered_lists:
  "(\<forall>cfg. loadDalek argv = Inr cfg \<longrightarrow>
      (\<forall>s. argv ''driver'' = JStr s \<and> s \<noteq> [] \<longrightarrow> driver cfg = split_comma s)
      \<and> (argv ''driver'' = JUndefined \<longrightarrow> driver cfg = [])
      \<and> (\<forall>s. argv ''reporter'' = JStr s \<and> s \<noteq> [] \<longrightarrow> reporter cfg = split_comma s)
      \<and> (argv ''reporter'' = JUndefined \<longrightarrow> reporter cfg = [])
      \<and> (\<forall>s. argv ''browser'' = JStr s \<and> s \<noteq> [] \<longrightarrow> browser cfg = split_comma s)
      \<and> (argv ''browser'' = JUndefined \<longrightarrow> browser cfg = []))
   \<and> split_comma ''a,b,c'' = [''a'', ''b'', ''c'']
   \<and> loadDalek (argv_of [(''driver'', ''a,b,c'')]) =
       Inr \<lparr>tests = JArr [], driver = [''a'', ''b'', ''c''], reporter = [], browser = [],
            viewport = JObj [],
            logLevel = JUndefined, baseUrl = JUndefined, noColors = JBool False,
            noSymbols = JBool False, remote = JUndefined\<rparr>
   \<and> loadDalek (argv_of []) =
       Inr \<lparr>tests = JArr [], driver = [], reporter = [], browser = [],
            viewport = JObj [],
            logLevel = JUndefined, baseUrl = JUndefined, noColors = JBool False,
            noSymbols = JBool False, remote = JUndefined\<rparr>
   \<and> loadDalek (argv_of [(''reporter'', ''a,b,c''), (''browser'', ''a,b,c'')]) =
       Inr \<lparr>tests = JArr [], driver = [], reporter = [''a'', ''b'', ''c''],
            browser = [''a'', ''b'', ''c''], viewport = JObj [],
            logLevel = JUndefined, baseUrl = JUndefined, noColors = JBool False,
            noSymbols = JBool False, remote = JUndefined\<rparr>"
proof -
  have g: "\<forall>cfg. loadDalek argv = Inr cfg \<longrightarrow>
      (\<forall>s. argv ''driver'' = JStr s \<and> s \<noteq> [] \<longrightarrow> driver cfg = split_comma s)
      \<and> (argv ''driver'' = JUndefined \<longrightarrow> driver cfg = [])
      \<and> (\<forall>s. argv ''reporter'' = JStr s \<and> s \<noteq> [] \<longrightarrow> reporter cfg = split_comma s)
      \<and> (argv ''reporter'' = JUndefined \<longrightarrow> reporter cfg = [])
      \<and> (\<forall>s. argv ''browser'' = JStr s \<and> s \<noteq> [] \<longrightarrow> browser cfg = split_comma s)
      \<and> (argv ''browser'' = JUndefined \<longrightarrow> browser cfg = [])"
  proof (intro allI impI)
    fix cfg
    assume "loadDalek argv = Inr cfg"
    note f = loadDalek_fields(1-3) [OF this]
    have l: "comma_list v = Inr xs \<Longrightarrow>
        (\<forall>s. v = JStr s \<and> s \<noteq> [] \<longrightarrow> xs = split_comma s) \<and> (v = JUndefined \<longrightarrow> xs = [])"
      for v xs
      by (auto simp: comma_list_def)
    from l [OF f(1)] l [OF f(2)] l [OF f(3)]
    show "(\<forall>s. argv ''driver'' = JStr s \<and> s \<noteq> [] \<longrightarrow> driver cfg = split_comma s)
      \<and> (argv ''driver'' = JUndefined \<longrightarrow> driver cfg = [])
      \<and> (\<forall>s. argv ''reporter'' = JStr s \<and> s \<noteq> [] \<longrightarrow> reporter cfg = split_comma s)
      \<and> (argv ''reporter'' = JUndefined \<longrightarrow> reporter cfg = [])
      \<and> (\<forall>s. argv ''browser'' = JStr s \<and> s \<noteq> [] \<longrightarrow> browser cfg = split_comma s)
      \<and> (argv ''browser'' = JUndefined \<longrightarrow> browser cfg = [])"
      by blast
  qed
  have s: "split_comma ''a,b,c'' = [''a'', ''b'', ''c'']"
    by simp
  have c1: "loadDalek (argv_of [(''driver'', ''a,b,c'')]) =
       Inr \<lparr>tests = JArr [], driver = [''a'', ''b'', ''c''], reporter = [], browser = [],
            viewport = JObj [],
            logLevel = JUndefined, baseUrl = JUndefined, noColors = JBool False,
            noSymbols = JBool False, remote = JUndefined\<rparr>"
    by code_simp
  have c2: "loadDalek (argv_of []) =
       Inr \<lparr>tests = JArr [], driver = [], reporter = [], browser = [],
            viewport = JObj [],
            logLevel = JUndefined, baseUrl = JUndefined, noColors = JBool False,
            noSymbols = JBool False, remote = JUndefined\<rparr>"
    by code_simp
  have c3: "loadDalek (argv_of [(''reporter'', ''a,b,c''), (''browser'', ''a,b,c'')]) =
       Inr \<lparr>tests = JArr [], driver = [], reporter = [''a'', ''b'', ''c''],
            browser = [''a'', ''b'', ''c''], viewport = JObj [],
            logLevel = JUndefined, baseUrl = JUndefined, noColors = JBool False,
            noSymbols = JBool False, remote = JUndefined\<rparr>"
    by code_simp
  from g s c1 c2 c3 show ?thesis by blast
qed

theorem comma_flags_become_ordered_lists_witness:
  "loadDalek (argv_of [(''driver'', ''native,sauce''), (''browser'', ''chrome'')]) =
     Inr \<lparr>tests = JArr [], driver = [''native'', ''sauce''], reporter = [],
          browser = [''chrome''], viewport = JObj [],
          logLevel = JUndefined, baseUrl = JUndefined, noColors = JBool False,
          noSymbols = JBool False, remote = JUndefined\<rparr>
   \<and> [''native'', ''sauce''] = split_comma ''native,sauce''
   \<and> [''chrome''] = split_comma ''chrome''"
proof -
  let ?argv = "argv_of [(''driver'', ''native,sauce''), (''browser'', ''chrome'')]"
  let ?cfg = "\<lparr>tests = JArr [], driver = [''native'', ''sauce''], reporter = [],
          browser = [''chrome''], viewport = JObj [],
          logLevel = JUndefined, baseUrl = JUndefined, noColors = JBool False,
          noSymbols = JBool False, remote = JUndefined\<rparr>"
  have r: "loadDalek ?argv = Inr ?cfg"
    by code_simp
  have a: "?argv ''driver'' = JStr ''native,sauce''" "?argv ''browser'' = JStr ''chrome''"
    by (simp_all add: argv_of_def)
  have ne: "''native,sauce'' \<noteq> ([] :: string)" "''chrome'' \<noteq> ([] :: string)"
    by simp_all
  have v: "driver ?cfg = [''native'', ''sauce'']" "browser ?cfg = [''chrome'']"
    by simp_all
  from comma_flags_become_ordered_lists [of ?argv] r a ne
  have "driver ?cfg = split_comma ''native,sauce''" "browser ?cfg = split_comma ''chrome''"
    by blast+
  with v r show ?thesis by (simp only:)
qed

end
